theory Spec2Isabelle
  imports Complex_Main
begin

section \<open>Python values used by the strategies\<close>

text \<open>
  The four strategy classes (\<^verbatim>\<open>aggressive_front_run_strategy.py\<close>,
  \<^verbatim>\<open>predictive_front_run_strategy.py\<close>, \<^verbatim>\<open>volatility_front_run_strategy.py\<close>,
  \<^verbatim>\<open>advanced_front_run_strategy.py\<close>) receive their collaborators as asynchronous
  callables. A collaborator either returns a value or raises; the model writes this as a
  sum, \<open>Inl\<close> for the raised exception and \<open>Inr\<close> for the returned value.
\<close>

datatype exc =
    ZeroDivisionError
  | KeyError string
  | ValueError string
  | CollaboratorError string

type_synonym 'a result = "exc + 'a"

subsection \<open>Floats\<close>

text \<open>
  A Python \<^verbatim>\<open>float\<close> is an IEEE 754 binary64 number. A finite one is the real number it
  denotes; the sign of zero is not represented (Python's \<^verbatim>\<open>==\<close> identifies both zeros,
  and float division raises for either).
\<close>

datatype pyfloat = Fin real | PosInf | NegInf | NaN

definition pow2 :: "int \<Rightarrow> real" where
  "pow2 k = (if 0 \<le> k then 2 ^ nat k else 1 / 2 ^ nat (- k))"

function bit_length :: "int \<Rightarrow> int" where
  "bit_length n = (if n \<le> 0 then 0 else 1 + bit_length (n div 2))"
  by pat_completeness auto
termination
  by (relation "measure nat") auto

declare bit_length.simps [simp del]

text \<open>\<open>ilog2 a\<close> is the exponent \<open>e\<close> with \<open>2 ^ e \<le> a < 2 ^ (e + 1)\<close>, for \<open>a > 0\<close>.\<close>

definition ilog2 :: "real \<Rightarrow> int" where
  "ilog2 a = (if 1 \<le> a then bit_length \<lfloor>a\<rfloor> - 1 else - bit_length (\<lceil>1 / a\<rceil> - 1))"

definition round_half_even :: "real \<Rightarrow> int" where
  "round_half_even x =
     (let n = \<lfloor>x\<rfloor>; r = x - of_int n
      in if r < 1 / 2 then n else if 1 / 2 < r then n + 1
         else if even n then n else n + 1)"

text \<open>
  Rounding of an exact result to the nearest binary64 number, ties to even: 53 significant
  bits, least exponent \<open>-1022\<close> (below it the spacing stays \<open>2 ^ -1074\<close>), overflow to
  infinity from \<open>2 ^ 1024\<close> on. \<open>ulp_of a\<close> is the spacing of the binary64 numbers
  around \<open>a > 0\<close>, \<open>round_mag a\<close> the multiple of it nearest to \<open>a\<close>.
\<close>

definition ulp_of :: "real \<Rightarrow> real" where
  "ulp_of a = pow2 (max (ilog2 a) (- 1022) - 52)"

definition round_mag :: "real \<Rightarrow> real" where
  "round_mag a = of_int (round_half_even (a / ulp_of a)) * ulp_of a"

definition round_double :: "real \<Rightarrow> pyfloat" where
  "round_double x =
     (if x = 0 then Fin 0
      else if pow2 1024 \<le> round_mag \<bar>x\<bar> then (if 0 < x then PosInf else NegInf)
      else Fin (if 0 < x then round_mag \<bar>x\<bar> else - round_mag \<bar>x\<bar>))"

text \<open>\<^verbatim>\<open>x / y\<close> on floats: a zero divisor raises, whatever the dividend.\<close>

fun py_truediv :: "pyfloat \<Rightarrow> pyfloat \<Rightarrow> pyfloat result" where
  "py_truediv x (Fin b) =
     (if b = 0 then Inl ZeroDivisionError
      else case x of
             Fin a \<Rightarrow> Inr (round_double (a / b))
           | PosInf \<Rightarrow> Inr (if 0 < b then PosInf else NegInf)
           | NegInf \<Rightarrow> Inr (if 0 < b then NegInf else PosInf)
           | NaN \<Rightarrow> Inr NaN)"
| "py_truediv (Fin a) PosInf = Inr (Fin 0)"
| "py_truediv (Fin a) NegInf = Inr (Fin 0)"
| "py_truediv x y = Inr NaN"

fun py_sub :: "pyfloat \<Rightarrow> pyfloat \<Rightarrow> pyfloat" where
  "py_sub (Fin a) (Fin b) = round_double (a - b)"
| "py_sub NaN y = NaN"
| "py_sub x NaN = NaN"
| "py_sub PosInf PosInf = NaN"
| "py_sub NegInf NegInf = NaN"
| "py_sub PosInf y = PosInf"
| "py_sub NegInf y = NegInf"
| "py_sub x PosInf = NegInf"
| "py_sub x NegInf = PosInf"

fun py_mul :: "pyfloat \<Rightarrow> pyfloat \<Rightarrow> pyfloat" where
  "py_mul (Fin a) (Fin b) = round_double (a * b)"
| "py_mul NaN y = NaN"
| "py_mul x NaN = NaN"
| "py_mul (Fin a) PosInf = (if a = 0 then NaN else if 0 < a then PosInf else NegInf)"
| "py_mul (Fin a) NegInf = (if a = 0 then NaN else if 0 < a then NegInf else PosInf)"
| "py_mul PosInf (Fin b) = (if b = 0 then NaN else if 0 < b then PosInf else NegInf)"
| "py_mul NegInf (Fin b) = (if b = 0 then NaN else if 0 < b then NegInf else PosInf)"
| "py_mul PosInf PosInf = PosInf"
| "py_mul NegInf NegInf = PosInf"
| "py_mul PosInf NegInf = NegInf"
| "py_mul NegInf PosInf = NegInf"

text \<open>\<^verbatim>\<open>x >= y\<close> and \<^verbatim>\<open>x < y\<close> on floats: every comparison with NaN is false.\<close>

fun py_ge :: "pyfloat \<Rightarrow> pyfloat \<Rightarrow> bool" where
  "py_ge NaN y = False"
| "py_ge x NaN = False"
| "py_ge PosInf y = True"
| "py_ge x NegInf = True"
| "py_ge (Fin a) (Fin b) = (b \<le> a)"
| "py_ge x y = False"

fun py_lt :: "pyfloat \<Rightarrow> pyfloat \<Rightarrow> bool" where
  "py_lt NaN y = False"
| "py_lt x NaN = False"
| "py_lt x NegInf = False"
| "py_lt PosInf y = False"
| "py_lt (Fin a) (Fin b) = (a < b)"
| "py_lt x y = True"

subsection \<open>Dictionaries, transactions, market conditions\<close>

text \<open>
  A \<^verbatim>\<open>dict\<close> with string keys is an association list read with \<open>map_of\<close>;
  \<open>dict_get d k dflt\<close> is \<^verbatim>\<open>d.get(k, dflt)\<close>.
\<close>

type_synonym 'v pydict = "(string \<times> 'v) list"

definition dict_get :: "'v pydict \<Rightarrow> string \<Rightarrow> 'v \<Rightarrow> 'v" where
  "dict_get d k dflt = (case map_of d k of None \<Rightarrow> dflt | Some v \<Rightarrow> v)"

type_synonym market_conditions = "bool pydict"

datatype pyval =
    PNone
  | PBool bool
  | PFloat pyfloat
  | PStr string
  | PFlags market_conditions

text \<open>The target transaction is a \<^verbatim>\<open>Dict[str, Any]\<close>; the configuration maps keys to numbers.\<close>

type_synonym tx = "pyval pydict"
type_synonym config = "pyfloat pydict"

definition opt_val :: "pyfloat option \<Rightarrow> pyval" where
  "opt_val x = (case x of None \<Rightarrow> PNone | Some f \<Rightarrow> PFloat f)"

section \<open>Collaborators and the trace of an evaluation\<close>

text \<open>
  The callables handed to the constructors. Each is a coroutine function: its body runs
  when it is awaited. The types follow the annotations of the constructors; the two price
  fetchers may also return \<^verbatim>\<open>None\<close>, which \<^verbatim>\<open>execute\<close> tests for. The optional
  argument of the validator is the keyword \<^verbatim>\<open>min_value\<close>.
\<close>

record collaborators =
  validate_transaction :: "tx \<Rightarrow> string \<Rightarrow> pyfloat option \<Rightarrow> (bool \<times> tx \<times> string) result"
  calculate_risk_score :: "tx \<Rightarrow> string \<Rightarrow> pyfloat \<Rightarrow> (pyfloat \<times> market_conditions) result"
  calculate_opportunity_score ::
    "pyfloat \<Rightarrow> pyfloat \<Rightarrow> market_conditions \<Rightarrow> pyfloat \<Rightarrow> pyfloat list \<Rightarrow> pyfloat result"
  calculate_volatility_score ::
    "pyfloat list \<Rightarrow> pyfloat option \<Rightarrow> market_conditions \<Rightarrow> pyfloat result"
  front_run :: "tx \<Rightarrow> bool result"
  get_price_change_24h :: "string \<Rightarrow> pyfloat result"
  predict_price_movement :: "string \<Rightarrow> pyfloat option result"
  get_real_time_price :: "string \<Rightarrow> pyfloat option result"
  check_market_conditions :: "pyval \<Rightarrow> market_conditions result"
  get_token_price_data :: "string \<Rightarrow> string \<Rightarrow> int \<Rightarrow> pyfloat list result"
  get_token_volume :: "string \<Rightarrow> pyfloat result"

text \<open>
  \<^verbatim>\<open>np.std\<close>, \<^verbatim>\<open>np.mean\<close> and the division of their results belong to numpy, not to
  this repository; they are parameters of the model. None of them raises on a list of
  floats.
\<close>

record numpy =
  np_std :: "pyfloat list \<Rightarrow> pyfloat"
  np_mean :: "pyfloat list \<Rightarrow> pyfloat"
  np_truediv :: "pyfloat \<Rightarrow> pyfloat \<Rightarrow> pyfloat"

text \<open>
  What an evaluation does besides returning: the collaborators it invokes, with their
  arguments, and the log records it emits. A log record keeps its level, the constant part
  of its message and the values interpolated into it (their formatting is not modelled).
  The calls of one \<^verbatim>\<open>asyncio.gather\<close> are listed in argument order.
\<close>

datatype level = Debug | Warning | Error

datatype event =
    Log level string "pyval list"
  | Call_validate_transaction tx string "pyfloat option"
  | Call_get_price_change_24h string
  | Call_predict_price_movement string
  | Call_get_real_time_price string
  | Call_check_market_conditions pyval
  | Call_get_token_price_data string string int
  | Call_get_token_volume string
  | Call_calculate_risk_score tx string pyfloat
  | Call_calculate_opportunity_score pyfloat pyfloat market_conditions pyfloat "pyfloat list"
  | Call_calculate_volatility_score "pyfloat list" "pyfloat option" market_conditions
  | Call_front_run tx

fun front_run_calls :: "event list \<Rightarrow> tx list" where
  "front_run_calls [] = []"
| "front_run_calls (Call_front_run t # evs) = t # front_run_calls evs"
| "front_run_calls (ev # evs) = front_run_calls evs"

fun is_log :: "event \<Rightarrow> bool" where
  "is_log (Log l m vs) = True"
| "is_log ev = False"

fun is_score_call :: "event \<Rightarrow> bool" where
  "is_score_call (Call_calculate_risk_score t s p) = True"
| "is_score_call (Call_calculate_opportunity_score p v m c h) = True"
| "is_score_call (Call_calculate_volatility_score h c m) = True"
| "is_score_call ev = False"

text \<open>The collaborator calls of a trace, in order.\<close>

definition calls :: "event list \<Rightarrow> event list" where
  "calls evs = filter (\<lambda>ev. \<not> is_log ev) evs"

section \<open>The strategies\<close>

subsection \<open>Configuration read by the constructors\<close>

text \<open>
  Each \<^verbatim>\<open>__init__\<close> reads its threshold with \<^verbatim>\<open>config.get(key, default)\<close>. The literal
  \<^verbatim>\<open>0.01\<close> is the binary64 number nearest to one hundredth.
\<close>

definition min_value_eth :: "config \<Rightarrow> pyfloat" where
  "min_value_eth cfg = dict_get cfg ''AGGRESSIVE_FRONT_RUN_MIN_VALUE_ETH'' (round_double (1 / 100))"

definition aggressive_risk_score_threshold :: "config \<Rightarrow> pyfloat" where
  "aggressive_risk_score_threshold cfg =
     dict_get cfg ''AGGRESSIVE_FRONT_RUN_RISK_SCORE_THRESHOLD'' (Fin 70)"

definition opportunity_score_threshold :: "config \<Rightarrow> pyfloat" where
  "opportunity_score_threshold cfg = dict_get cfg ''FRONT_RUN_OPPORTUNITY_SCORE_THRESHOLD'' (Fin 60)"

definition volatility_score_threshold :: "config \<Rightarrow> pyfloat" where
  "volatility_score_threshold cfg = dict_get cfg ''VOLATILITY_FRONT_RUN_SCORE_THRESHOLD'' (Fin 75)"

definition advanced_risk_score_threshold :: "config \<Rightarrow> pyfloat" where
  "advanced_risk_score_threshold cfg =
     dict_get cfg ''ADVANCED_FRONT_RUN_RISK_SCORE_THRESHOLD'' (Fin 70)"

subsection \<open>Derived quantities\<close>

text \<open>
  \<^verbatim>\<open>(predicted_price / float(current_price) - 1) * 100\<close>: three float operations, each
  rounded; the division raises when the current price is zero. \<^verbatim>\<open>float\<close> of a float is
  the float itself.
\<close>

definition price_change_pct :: "pyfloat \<Rightarrow> pyfloat \<Rightarrow> pyfloat result" where
  "price_change_pct predicted_price current_price =
     (case py_truediv predicted_price current_price of
        Inl e \<Rightarrow> Inl e
      | Inr q \<Rightarrow> Inr (py_mul (py_sub q (Fin 1)) (Fin 100)))"

text \<open>
  \<^verbatim>\<open>np.std(historical_prices) / np.mean(historical_prices) if historical_prices else 0\<close>:
  an empty list is false.
\<close>

definition volatility_ratio :: "numpy \<Rightarrow> pyfloat list \<Rightarrow> pyfloat" where
  "volatility_ratio np historical_prices =
     (if historical_prices \<noteq> []
      then np_truediv np (np_std np historical_prices) (np_mean np historical_prices)
      else Fin 0)"

text \<open>The three readings of the advanced strategy, \<^verbatim>\<open>market_conditions.get(key, default)\<close>.\<close>

definition is_bullish :: "market_conditions \<Rightarrow> bool" where
  "is_bullish market_conditions = dict_get market_conditions ''bullish_trend'' False"

definition is_volatile :: "market_conditions \<Rightarrow> bool" where
  "is_volatile market_conditions = dict_get market_conditions ''high_volatility'' False"

definition has_liquidity :: "market_conditions \<Rightarrow> bool" where
  "has_liquidity market_conditions = (\<not> dict_get market_conditions ''low_liquidity'' True)"

text \<open>
  \<^verbatim>\<open>min\<close> and \<^verbatim>\<open>max\<close> of a non-empty list keep the first element until a later one
  compares smaller (greater); on the empty list they raise \<^verbatim>\<open>ValueError\<close>.
\<close>

definition py_min :: "pyfloat list \<Rightarrow> pyfloat result" where
  "py_min xs =
     (case xs of
        [] \<Rightarrow> Inl (ValueError ''min() arg is an empty sequence'')
      | y # ys \<Rightarrow> Inr (foldl (\<lambda>m x. if py_lt x m then x else m) y ys))"

definition py_max :: "pyfloat list \<Rightarrow> pyfloat result" where
  "py_max xs =
     (case xs of
        [] \<Rightarrow> Inl (ValueError ''max() arg is an empty sequence'')
      | y # ys \<Rightarrow> Inr (foldl (\<lambda>m x. if py_lt m x then x else m) y ys))"

subsection \<open>\<^verbatim>\<open>AggressiveFrontRunStrategy.execute\<close>\<close>

definition aggressive_execute :: "collaborators \<Rightarrow> config \<Rightarrow> tx \<Rightarrow> event list \<times> bool result" where
  "aggressive_execute c cfg target_tx =
     (let t0 = [Log Debug ''Initiating Aggressive Front-Run Strategy...'' [],
                Call_validate_transaction target_tx ''front_run'' (Some (min_value_eth cfg))]
      in case validate_transaction c target_tx ''front_run'' (Some (min_value_eth cfg)) of
           Inl e \<Rightarrow> (t0, Inl e)
         | Inr (valid, decoded_tx, token_symbol) \<Rightarrow>
             if \<not> valid then (t0, Inr False)
             else
               let t1 = t0 @ [Call_get_price_change_24h token_symbol]
               in case get_price_change_24h c token_symbol of
                    Inl e \<Rightarrow> (t1, Inl e)
                  | Inr price_change_24h \<Rightarrow>
                      let t2 = t1 @ [Call_calculate_risk_score target_tx token_symbol price_change_24h]
                      in case calculate_risk_score c target_tx token_symbol price_change_24h of
                           Inl e \<Rightarrow> (t2, Inl e)
                         | Inr (risk_score, market_conditions) \<Rightarrow>
                             if py_ge risk_score (aggressive_risk_score_threshold cfg)
                             then (t2 @ [Log Debug ''Executing aggressive front-run'' [PFloat risk_score],
                                         Call_front_run target_tx],
                                   front_run c target_tx)
                             else (t2, Inr False))"

subsection \<open>\<^verbatim>\<open>PredictiveFrontRunStrategy.execute\<close>\<close>

text \<open>
  The \<^verbatim>\<open>try\<close> block covers the construction of the gather, the gather itself and the two
  tests of its results. \<^verbatim>\<open>target_tx["to"]\<close> is evaluated while the arguments of
  \<^verbatim>\<open>gather\<close> are built: on a missing key the \<^verbatim>\<open>KeyError\<close> is caught by the handler and
  no coroutine has run. With \<^verbatim>\<open>return_exceptions=True\<close> every fetcher runs, and one that
  raised yields its exception as its result.
\<close>

definition predictive_execute ::
    "numpy \<Rightarrow> collaborators \<Rightarrow> config \<Rightarrow> tx \<Rightarrow> event list \<times> bool result" where
  "predictive_execute np c cfg target_tx =
     (let t0 = [Log Debug ''Initiating  Predictive Front-Run Strategy...'' [],
                Call_validate_transaction target_tx ''front_run'' None]
      in case validate_transaction c target_tx ''front_run'' None of
           Inl e \<Rightarrow> (t0, Inl e)
         | Inr (valid, decoded_tx, token_symbol) \<Rightarrow>
             if \<not> valid then (t0, Inr False)
             else case map_of target_tx ''to'' of
               None \<Rightarrow> (t0 @ [Log Error ''Error gathering market data'' [PStr ''to'']], Inr False)
             | Some to_address \<Rightarrow>
               let t1 = t0 @ [Call_predict_price_movement token_symbol,
                              Call_get_real_time_price token_symbol,
                              Call_check_market_conditions to_address,
                              Call_get_token_price_data token_symbol ''historical'' 1]
               in case (predict_price_movement c token_symbol,
                        get_real_time_price c token_symbol,
                        check_market_conditions c to_address,
                        get_token_price_data c token_symbol ''historical'' 1) of
                    (Inr predicted_price, Inr current_price, Inr market_conditions, Inr historical_prices) \<Rightarrow>
                      (case (current_price, predicted_price) of
                         (Some current, Some predicted) \<Rightarrow>
                           (case price_change_pct predicted current of
                              Inl e \<Rightarrow> (t1, Inl e)
                            | Inr price_change \<Rightarrow>
                                let volatility = volatility_ratio np historical_prices;
                                    t2 = t1 @ [Call_calculate_opportunity_score price_change volatility
                                                 market_conditions current historical_prices]
                                in case calculate_opportunity_score c price_change volatility
                                          market_conditions current historical_prices of
                                     Inl e \<Rightarrow> (t2, Inl e)
                                   | Inr opportunity_score \<Rightarrow>
                                       let t3 = t2 @ [Log Debug ''Predictive Analysis''
                                                        [PStr token_symbol, PFloat current, PFloat predicted,
                                                         PFloat price_change, PFloat volatility,
                                                         PFloat opportunity_score, PFlags market_conditions]]
                                       in if py_ge opportunity_score (opportunity_score_threshold cfg)
                                          then (t3 @ [Log Debug ''Executing predictive front-run''
                                                        [PStr token_symbol, PFloat opportunity_score,
                                                         PFloat price_change],
                                                      Call_front_run target_tx],
                                                front_run c target_tx)
                                          else (t3 @ [Log Debug ''Opportunity score below threshold. Skipping front-run.''
                                                        [PFloat opportunity_score]],
                                                Inr False))
                       | _ \<Rightarrow> (t1 @ [Log Debug ''Missing price data for analysis.'' []], Inr False))
                  | _ \<Rightarrow> (t1 @ [Log Warning ''Failed to gather complete market data.'' []], Inr False))"

subsection \<open>\<^verbatim>\<open>VolatilityFrontRunStrategy.execute\<close>\<close>

text \<open>
  The debug record after the score interpolates \<^verbatim>\<open>min(historical_prices)\<close> and
  \<^verbatim>\<open>max(historical_prices)\<close>; the f-string is evaluated before \<^verbatim>\<open>logger.debug\<close> is
  called, whatever the log level.
\<close>

definition volatility_execute :: "collaborators \<Rightarrow> config \<Rightarrow> tx \<Rightarrow> event list \<times> bool result" where
  "volatility_execute c cfg target_tx =
     (let t0 = [Log Debug ''Initiating  Volatility Front-Run Strategy...'' [],
                Call_validate_transaction target_tx ''front_run'' None]
      in case validate_transaction c target_tx ''front_run'' None of
           Inl e \<Rightarrow> (t0, Inl e)
         | Inr (valid, decoded_tx, token_symbol) \<Rightarrow>
             if \<not> valid then (t0, Inr False)
             else case map_of target_tx ''to'' of
               None \<Rightarrow> (t0 @ [Log Error ''Error gathering market data'' [PStr ''to'']], Inr False)
             | Some to_address \<Rightarrow>
               let t1 = t0 @ [Call_check_market_conditions to_address,
                              Call_get_real_time_price token_symbol,
                              Call_get_token_price_data token_symbol ''historical'' 1]
               in case (check_market_conditions c to_address,
                        get_real_time_price c token_symbol,
                        get_token_price_data c token_symbol ''historical'' 1) of
                    (Inr market_conditions, Inr current_price, Inr historical_prices) \<Rightarrow>
                      let t2 = t1 @ [Call_calculate_volatility_score historical_prices current_price
                                       market_conditions]
                      in (case calculate_volatility_score c historical_prices current_price
                                 market_conditions of
                            Inl e \<Rightarrow> (t2, Inl e)
                          | Inr volatility_score \<Rightarrow>
                              (case py_min historical_prices of
                                 Inl e \<Rightarrow> (t2, Inl e)
                               | Inr lowest \<Rightarrow>
                                   (case py_max historical_prices of
                                      Inl e \<Rightarrow> (t2, Inl e)
                                    | Inr highest \<Rightarrow>
                                        let t3 = t2 @ [Log Debug ''Volatility Analysis''
                                                         [PStr token_symbol, PFloat volatility_score,
                                                          opt_val current_price, PFloat lowest,
                                                          PFloat highest, PFlags market_conditions]]
                                        in if py_ge volatility_score (volatility_score_threshold cfg)
                                           then (t3 @ [Log Debug ''Executing volatility-based front-run''
                                                         [PStr token_symbol, PFloat volatility_score],
                                                       Call_front_run target_tx],
                                                 front_run c target_tx)
                                           else (t3 @ [Log Debug ''Volatility score below threshold. Skipping front-run.''
                                                         [PFloat volatility_score]],
                                                 Inr False))))
                  | _ \<Rightarrow> (t1 @ [Log Warning ''Failed to gather complete market data'' []], Inr False))"

subsection \<open>\<^verbatim>\<open>AdvancedFrontRunStrategy.execute\<close>\<close>

definition advanced_execute :: "collaborators \<Rightarrow> config \<Rightarrow> tx \<Rightarrow> event list \<times> bool result" where
  "advanced_execute c cfg target_tx =
     (let t0 = [Log Debug ''Initiating Advanced Front-Run Strategy...'' [],
                Call_validate_transaction target_tx ''front_run'' None]
      in case validate_transaction c target_tx ''front_run'' None of
           Inl e \<Rightarrow> (t0, Inl e)
         | Inr (valid, decoded_tx, token_symbol) \<Rightarrow>
             if \<not> valid then (t0, Inr False)
             else case map_of target_tx ''to'' of
               None \<Rightarrow> (t0 @ [Log Error ''Error gathering market data'' [PStr ''to'']], Inr False)
             | Some to_address \<Rightarrow>
               let t1 = t0 @ [Call_predict_price_movement token_symbol,
                              Call_check_market_conditions to_address,
                              Call_get_real_time_price token_symbol,
                              Call_get_token_volume token_symbol]
               in case (predict_price_movement c token_symbol,
                        check_market_conditions c to_address,
                        get_real_time_price c token_symbol,
                        get_token_volume c token_symbol) of
                    (Inr predicted_price, Inr market_conditions, Inr current_price, Inr volume) \<Rightarrow>
                      (case (current_price, predicted_price) of
                         (Some current, Some predicted) \<Rightarrow>
                           (case price_change_pct predicted current of
                              Inl e \<Rightarrow> (t1, Inl e)
                            | Inr price_increase \<Rightarrow>
                                let t2 = t1 @ [Call_calculate_risk_score target_tx token_symbol price_increase]
                                in case calculate_risk_score c target_tx token_symbol price_increase of
                                     Inl e \<Rightarrow> (t2, Inl e)
                                   | Inr (risk_score, market_conditions') \<Rightarrow>
                                       let t3 = t2 @ [Log Debug ''Analysis''
                                                        [PStr token_symbol, PFloat price_increase,
                                                         PStr (if is_bullish market_conditions
                                                               then ''Bullish'' else ''Bearish''),
                                                         PStr (if is_volatile market_conditions
                                                               then ''High'' else ''Low''),
                                                         PStr (if has_liquidity market_conditions
                                                               then ''Adequate'' else ''Low''),
                                                         PFloat volume, PFloat risk_score]]
                                       in if py_ge risk_score (advanced_risk_score_threshold cfg)
                                          then (t3 @ [Log Debug ''Executing advanced front-run''
                                                        [PStr token_symbol, PFloat risk_score],
                                                      Call_front_run target_tx],
                                                front_run c target_tx)
                                          else (t3 @ [Log Debug ''Risk score below threshold. Skipping front-run.''
                                                        [PFloat risk_score]],
                                                Inr False))
                       | _ \<Rightarrow> (t1 @ [Log Debug ''Missing price data for analysis. Skipping...'' []],
                               Inr False))
                  | _ \<Rightarrow> (t1 @ [Log Warning ''Failed to gather complete market data.'' []], Inr False))"

subsection \<open>The four variants together\<close>

datatype variant = Aggressive | Predictive | Volatility | Advanced

fun execute :: "numpy \<Rightarrow> collaborators \<Rightarrow> config \<Rightarrow> variant \<Rightarrow> tx \<Rightarrow> event list \<times> bool result" where
  "execute np c cfg Aggressive target_tx = aggressive_execute c cfg target_tx"
| "execute np c cfg Predictive target_tx = predictive_execute np c cfg target_tx"
| "execute np c cfg Volatility target_tx = volatility_execute c cfg target_tx"
| "execute np c cfg Advanced target_tx = advanced_execute c cfg target_tx"

text \<open>The \<^verbatim>\<open>min_value\<close> argument each variant gives the validator.\<close>

fun validate_min_value :: "variant \<Rightarrow> config \<Rightarrow> pyfloat option" where
  "validate_min_value Aggressive cfg = Some (min_value_eth cfg)"
| "validate_min_value v cfg = None"


section \<open>The demonstration collaborators\<close>

text \<open>
  The mock classes of \<^verbatim>\<open>example_usage.py\<close> (\<^verbatim>\<open>MockTransactionCore\<close>,
  \<^verbatim>\<open>MockAPIConfig\<close>, \<^verbatim>\<open>MockMarketMonitor\<close>) and its example transaction. The mocks
  ignore their arguments.
\<close>

definition mock :: collaborators where
  "mock =
     \<lparr> validate_transaction = (\<lambda>target_tx strategy_type min_value. Inr (True, [], ''MOCK_TOKEN'')),
       calculate_risk_score =
         (\<lambda>target_tx token_symbol price_change. Inr (Fin 80, [(''bullish_trend'', True)])),
       calculate_opportunity_score =
         (\<lambda>price_change volatility market_conditions current_price historical_prices. Inr (Fin 70)),
       calculate_volatility_score =
         (\<lambda>historical_prices current_price market_conditions. Inr (Fin 85)),
       front_run = (\<lambda>target_tx. Inr True),
       get_price_change_24h = (\<lambda>token_symbol. Inr (Fin 5)),
       predict_price_movement = (\<lambda>token_symbol. Inr (Some (Fin (21 / 2)))),
       get_real_time_price = (\<lambda>token_symbol. Inr (Some (Fin 10))),
       check_market_conditions =
         (\<lambda>contract_address.
            Inr [(''bullish_trend'', True), (''high_volatility'', True), (''low_liquidity'', False)]),
       get_token_price_data =
         (\<lambda>token_symbol data_type timeframe.
            Inr [Fin (19 / 2), round_double (49 / 5), round_double (101 / 10), round_double (99 / 10)]),
       get_token_volume = (\<lambda>token_symbol. Inr (Fin 1000000)) \<rparr>"

definition example_transaction :: tx where
  "example_transaction =
     [(''to'', PStr ''0x7a250d5630B4cF539739dF2C5dAcb4c659F2488D''),
      (''data'', PStr ''0x...''),
      (''value'', PStr ''0.01'')]"

text \<open>
  Variations of the demonstration collaborators, one collaborator replaced in each. They
  are the concrete inputs at which the properties below are evaluated.
\<close>

definition mock_rejecting :: collaborators where
  "mock_rejecting =
     mock\<lparr>validate_transaction := (\<lambda>target_tx strategy_type min_value. Inr (False, [], ''MOCK_TOKEN''))\<rparr>"

definition mock_validator_raises :: collaborators where
  "mock_validator_raises =
     mock\<lparr>validate_transaction :=
            (\<lambda>target_tx strategy_type min_value. Inl (CollaboratorError ''decoder unavailable''))\<rparr>"

definition mock_price_feed_raises :: collaborators where
  "mock_price_feed_raises =
     mock\<lparr>get_price_change_24h := (\<lambda>token_symbol. Inl (CollaboratorError ''price feed unavailable''))\<rparr>"

definition mock_history_raises :: collaborators where
  "mock_history_raises =
     mock\<lparr>get_token_price_data :=
            (\<lambda>token_symbol data_type timeframe. Inl (CollaboratorError ''history unavailable''))\<rparr>"

definition mock_risk_score_raises :: collaborators where
  "mock_risk_score_raises =
     mock\<lparr>calculate_risk_score :=
            (\<lambda>target_tx token_symbol price_change. Inl (CollaboratorError ''risk model unavailable''))\<rparr>"

definition mock_empty_history :: collaborators where
  "mock_empty_history = mock\<lparr>get_token_price_data := (\<lambda>token_symbol data_type timeframe. Inr [])\<rparr>"

definition mock_empty_history_low_score :: collaborators where
  "mock_empty_history_low_score =
     mock\<lparr>get_token_price_data := (\<lambda>token_symbol data_type timeframe. Inr []),
          calculate_volatility_score := (\<lambda>historical_prices current_price market_conditions. Inr (Fin 10))\<rparr>"

definition mock_no_current_price :: collaborators where
  "mock_no_current_price = mock\<lparr>get_real_time_price := (\<lambda>token_symbol. Inr None)\<rparr>"

definition mock_zero_price :: collaborators where
  "mock_zero_price = mock\<lparr>get_real_time_price := (\<lambda>token_symbol. Inr (Some (Fin 0)))\<rparr>"

definition mock_no_liquidity_flag :: collaborators where
  "mock_no_liquidity_flag =
     mock\<lparr>check_market_conditions :=
            (\<lambda>contract_address. Inr [(''bullish_trend'', True), (''high_volatility'', True)])\<rparr>"

section \<open>Evaluating the float operations\<close>

lemmas execute_defs =
  aggressive_execute_def predictive_execute_def volatility_execute_def advanced_execute_def

lemmas threshold_defs =
  aggressive_risk_score_threshold_def opportunity_score_threshold_def
  volatility_score_threshold_def advanced_risk_score_threshold_def

text \<open>
  The three roundings of \<^verbatim>\<open>(10.5 / 10.0 - 1) * 100\<close>: the quotient is not a binary64
  number and is rounded up; the difference and the product are exact.
\<close>

lemma pow2_1024: "pow2 1024 = 2 ^ 1024"
  by (simp add: pow2_def)

lemma ulp_of_21_20: "ulp_of (21 / 20) = 1 / 2 ^ 52"
  by (simp add: ulp_of_def ilog2_def pow2_def bit_length.simps)

lemma round_mag_21_20: "round_mag (21 / 20) = 4728779608739021 / 4503599627370496"
  by (simp add: round_mag_def ulp_of_21_20 round_half_even_def Let_def)

lemma round_double_21_20: "round_double (21 / 20) = Fin (4728779608739021 / 4503599627370496)"
  by (simp add: round_double_def round_mag_21_20 pow2_1024)

lemma ulp_of_excess: "ulp_of (225179981368525 / 4503599627370496) = 1 / 2 ^ 57"
  by (simp add: ulp_of_def ilog2_def pow2_def bit_length.simps)

lemma round_mag_excess:
  "round_mag (225179981368525 / 4503599627370496) = 225179981368525 / 4503599627370496"
  by (simp add: round_mag_def ulp_of_excess round_half_even_def Let_def)

lemma round_double_excess:
  "round_double (225179981368525 / 4503599627370496) = Fin (225179981368525 / 4503599627370496)"
  by (simp add: round_double_def round_mag_excess pow2_1024)

lemma ulp_of_pct: "ulp_of (5629499534213125 / 1125899906842624) = 1 / 2 ^ 50"
  by (simp add: ulp_of_def ilog2_def pow2_def bit_length.simps)

lemma round_mag_pct:
  "round_mag (5629499534213125 / 1125899906842624) = 5629499534213125 / 1125899906842624"
  by (simp add: round_mag_def ulp_of_pct round_half_even_def Let_def)

lemma round_double_pct:
  "round_double (5629499534213125 / 1125899906842624) = Fin (5629499534213125 / 1125899906842624)"
  by (simp add: round_double_def round_mag_pct pow2_1024)

lemma price_change_pct_example:
  "price_change_pct (Fin (21 / 2)) (Fin 10) = Inr (Fin (5629499534213125 / 1125899906842624))"
  by (simp add: price_change_pct_def round_double_21_20 round_double_excess round_double_pct)

section \<open>Paths through \<^verbatim>\<open>execute\<close>\<close>

subsection \<open>Validation\<close>


subsection \<open>The gather stage\<close>




lemma predictive_missing_price:
  assumes "validate_transaction c tx ''front_run'' None = Inr (True, d, tok)"
      and "map_of tx ''to'' = Some addr"
      and "predict_price_movement c tok = Inr predicted"
      and "get_real_time_price c tok = Inr current"
      and "check_market_conditions c addr = Inr mc"
      and "get_token_price_data c tok ''historical'' 1 = Inr hs"
      and "current = None \<or> predicted = None"
  shows "snd (predictive_execute np c cfg tx) = Inr False \<and>
         filter is_score_call (fst (predictive_execute np c cfg tx)) = [] \<and>
         front_run_calls (fst (predictive_execute np c cfg tx)) = []"
  using assms by (cases current; cases predicted) (simp_all add: predictive_execute_def Let_def)

lemma advanced_missing_price:
  assumes "validate_transaction c tx ''front_run'' None = Inr (True, d, tok)"
      and "map_of tx ''to'' = Some addr"
      and "predict_price_movement c tok = Inr predicted"
      and "check_market_conditions c addr = Inr mc"
      and "get_real_time_price c tok = Inr current"
      and "get_token_volume c tok = Inr volume"
      and "current = None \<or> predicted = None"
  shows "snd (advanced_execute c cfg tx) = Inr False \<and>
         filter is_score_call (fst (advanced_execute c cfg tx)) = [] \<and>
         front_run_calls (fst (advanced_execute c cfg tx)) = []"
  using assms by (cases current; cases predicted) (simp_all add: advanced_execute_def Let_def)

subsection \<open>Derived quantities and the gate\<close>

lemma predictive_zero_price:
  assumes "validate_transaction c tx ''front_run'' None = Inr (True, d, tok)"
      and "map_of tx ''to'' = Some addr"
      and "predict_price_movement c tok = Inr (Some predicted)"
      and "get_real_time_price c tok = Inr (Some (Fin 0))"
      and "check_market_conditions c addr = Inr mc"
      and "get_token_price_data c tok ''historical'' 1 = Inr hs"
  shows "snd (predictive_execute np c cfg tx) = Inl ZeroDivisionError"
  using assms by (simp add: predictive_execute_def Let_def price_change_pct_def)

lemma advanced_zero_price:
  assumes "validate_transaction c tx ''front_run'' None = Inr (True, d, tok)"
      and "map_of tx ''to'' = Some addr"
      and "predict_price_movement c tok = Inr (Some predicted)"
      and "check_market_conditions c addr = Inr mc"
      and "get_real_time_price c tok = Inr (Some (Fin 0))"
      and "get_token_volume c tok = Inr volume"
  shows "snd (advanced_execute c cfg tx) = Inl ZeroDivisionError"
  using assms by (simp add: advanced_execute_def Let_def price_change_pct_def)

lemma aggressive_gate:
  assumes "validate_transaction c tx ''front_run'' (Some (min_value_eth cfg)) = Inr (True, d, tok)"
      and "get_price_change_24h c tok = Inr pc"
      and "calculate_risk_score c tx tok pc = Inr (s, mc)"
  shows "snd (aggressive_execute c cfg tx) =
           (if py_ge s (aggressive_risk_score_threshold cfg) then front_run c tx else Inr False) \<and>
         front_run_calls (fst (aggressive_execute c cfg tx)) =
           (if py_ge s (aggressive_risk_score_threshold cfg) then [tx] else [])"
  using assms by (simp add: aggressive_execute_def)

lemma predictive_gate:
  assumes "validate_transaction c tx ''front_run'' None = Inr (True, d, tok)"
      and "map_of tx ''to'' = Some addr"
      and "predict_price_movement c tok = Inr (Some predicted)"
      and "get_real_time_price c tok = Inr (Some current)"
      and "check_market_conditions c addr = Inr mc"
      and "get_token_price_data c tok ''historical'' 1 = Inr hs"
      and "price_change_pct predicted current = Inr pc"
      and "calculate_opportunity_score c pc (volatility_ratio np hs) mc current hs = Inr s"
  shows "snd (predictive_execute np c cfg tx) =
           (if py_ge s (opportunity_score_threshold cfg) then front_run c tx else Inr False) \<and>
         front_run_calls (fst (predictive_execute np c cfg tx)) =
           (if py_ge s (opportunity_score_threshold cfg) then [tx] else [])"
  using assms by (simp add: predictive_execute_def Let_def)

lemma advanced_gate:
  assumes "validate_transaction c tx ''front_run'' None = Inr (True, d, tok)"
      and "map_of tx ''to'' = Some addr"
      and "predict_price_movement c tok = Inr (Some predicted)"
      and "check_market_conditions c addr = Inr mc"
      and "get_real_time_price c tok = Inr (Some current)"
      and "get_token_volume c tok = Inr volume"
      and "price_change_pct predicted current = Inr pc"
      and "calculate_risk_score c tx tok pc = Inr (s, mc')"
  shows "snd (advanced_execute c cfg tx) =
           (if py_ge s (advanced_risk_score_threshold cfg) then front_run c tx else Inr False) \<and>
         front_run_calls (fst (advanced_execute c cfg tx)) =
           (if py_ge s (advanced_risk_score_threshold cfg) then [tx] else [])"
  using assms by (simp add: advanced_execute_def Let_def)

lemma volatility_gate:
  assumes "validate_transaction c tx ''front_run'' None = Inr (True, d, tok)"
      and "map_of tx ''to'' = Some addr"
      and "check_market_conditions c addr = Inr mc"
      and "get_real_time_price c tok = Inr current"
      and "get_token_price_data c tok ''historical'' 1 = Inr hs"
      and "hs \<noteq> []"
      and "calculate_volatility_score c hs current mc = Inr s"
  shows "snd (volatility_execute c cfg tx) =
           (if py_ge s (volatility_score_threshold cfg) then front_run c tx else Inr False) \<and>
         front_run_calls (fst (volatility_execute c cfg tx)) =
           (if py_ge s (volatility_score_threshold cfg) then [tx] else [])"
  using assms by (cases hs) (simp_all add: volatility_execute_def Let_def py_min_def py_max_def)

lemma volatility_empty_history:
  assumes "validate_transaction c tx ''front_run'' None = Inr (True, d, tok)"
      and "map_of tx ''to'' = Some addr"
      and "check_market_conditions c addr = Inr mc"
      and "get_real_time_price c tok = Inr current"
      and "get_token_price_data c tok ''historical'' 1 = Inr []"
      and "calculate_volatility_score c [] current mc = Inr s"
  shows "snd (volatility_execute c cfg tx) = Inl (ValueError ''min() arg is an empty sequence'') \<and>
         front_run_calls (fst (volatility_execute c cfg tx)) = []"
  using assms by (simp add: volatility_execute_def Let_def py_min_def)

subsection \<open>A true result\<close>





section \<open>The demonstration inputs\<close>

lemmas mock_defs =
  mock_def mock_rejecting_def mock_validator_raises_def mock_price_feed_raises_def
  mock_history_raises_def mock_risk_score_raises_def mock_empty_history_def
  mock_empty_history_low_score_def mock_no_current_price_def mock_zero_price_def
  mock_no_liquidity_flag_def

lemma example_to:
  "map_of example_transaction ''to'' = Some (PStr ''0x7a250d5630B4cF539739dF2C5dAcb4c659F2488D'')"
  by (simp add: example_transaction_def)

section \<open>The claims\<close>




text \<open>
  C2: whenever a signal fetcher fails, \<^verbatim>\<open>execute\<close> returns false and the executor is not
  invoked. The three gathering variants do so (\<open>predictive_gather_failure\<close>,
  \<open>volatility_gather_failure\<close>, \<open>advanced_gather_failure\<close>); the aggressive variant awaits
  its one fetcher outside any \<^verbatim>\<open>try\<close>, and the fetcher's exception leaves \<^verbatim>\<open>execute\<close>:
  the executor is not invoked, but the result is an exception, not false.
\<close>

theorem aggressive_fetcher_exception_escapes:
  "snd (aggressive_execute mock_price_feed_raises [] example_transaction) =
     Inl (CollaboratorError ''price feed unavailable'') \<and>
   front_run_calls (fst (aggressive_execute mock_price_feed_raises [] example_transaction)) = []"
  by (simp add: aggressive_execute_def mock_defs)

text \<open>
  C3: when the validator returns \<^verbatim>\<open>is_valid = False\<close>, \<^verbatim>\<open>execute\<close> of every variant
  returns false, and the call of the validator is the only collaborator call of the
  evaluation: no fetcher, no score reducer, no executor.
\<close>

theorem validation_rejection_stops_evaluation:
  assumes "validate_transaction c target_tx ''front_run'' (validate_min_value v cfg) = Inr (False, decoded_tx, token_symbol)"
  shows "snd (execute np c cfg v target_tx) = Inr False \<and>
         calls (fst (execute np c cfg v target_tx)) =
           [Call_validate_transaction target_tx ''front_run'' (validate_min_value v cfg)]"
  using assms by (cases v) (simp_all add: execute_defs calls_def)

theorem validation_rejection_stops_evaluation_witness:
  "validate_transaction mock_rejecting example_transaction ''front_run''
     (validate_min_value Aggressive []) = Inr (False, [], ''MOCK_TOKEN'') \<and>
   snd (aggressive_execute mock_rejecting [] example_transaction) = Inr False \<and>
   calls (fst (aggressive_execute mock_rejecting [] example_transaction)) =
     [Call_validate_transaction example_transaction ''front_run'' (Some (min_value_eth []))]"
proof -
  have h: "validate_transaction mock_rejecting example_transaction ''front_run''
      (validate_min_value Aggressive []) = Inr (False, [], ''MOCK_TOKEN'')"
    by (simp add: mock_defs)
  from validation_rejection_stops_evaluation [OF h] h show ?thesis
    by simp
qed

text \<open>
  C4: when validation and every fetcher succeed and the computed score reaches the
  threshold, the executor is invoked exactly once with the original transaction and its
  result is returned unchanged. The aggressive, predictive and advanced variants do so
  (\<open>aggressive_gate\<close>, \<open>predictive_gate\<close>, \<open>advanced_gate\<close>), and the volatility variant
  on a non-empty price history (\<open>volatility_gate\<close>). On an empty history, which the price
  fetcher may return, the volatility variant raises \<^verbatim>\<open>ValueError\<close> while it formats its
  debug record, after the score (85, threshold 75) and before the gate: the executor is
  not invoked.
\<close>

theorem volatility_empty_history_blocks_dispatch:
  "filter is_score_call (fst (volatility_execute mock_empty_history [] example_transaction)) =
     [Call_calculate_volatility_score [] (Some (Fin 10))
        [(''bullish_trend'', True), (''high_volatility'', True), (''low_liquidity'', False)]] \<and>
   calculate_volatility_score mock_empty_history [] (Some (Fin 10))
     [(''bullish_trend'', True), (''high_volatility'', True), (''low_liquidity'', False)] = Inr (Fin 85) \<and>
   py_ge (Fin 85) (volatility_score_threshold []) \<and>
   front_run_calls (fst (volatility_execute mock_empty_history [] example_transaction)) = [] \<and>
   snd (volatility_execute mock_empty_history [] example_transaction) =
     Inl (ValueError ''min() arg is an empty sequence'')"
  by (simp add: volatility_execute_def Let_def mock_defs example_to py_min_def threshold_defs
        dict_get_def)

text \<open>
  C5: the gate is \<^verbatim>\<open>score >= threshold\<close>, and a score below the threshold makes
  \<^verbatim>\<open>execute\<close> return false without invoking the executor. The gate lemmas above show
  both for every variant, the volatility variant on a non-empty price history. On an empty
  history the volatility variant does not reach its gate: with a score of 10 against the
  threshold 75 it raises \<^verbatim>\<open>ValueError\<close> instead of returning false.
\<close>

theorem volatility_empty_history_low_score_raises:
  "calculate_volatility_score mock_empty_history_low_score [] (Some (Fin 10))
     [(''bullish_trend'', True), (''high_volatility'', True), (''low_liquidity'', False)] = Inr (Fin 10) \<and>
   py_lt (Fin 10) (volatility_score_threshold []) \<and>
   snd (volatility_execute mock_empty_history_low_score [] example_transaction) =
     Inl (ValueError ''min() arg is an empty sequence'') \<and>
   snd (volatility_execute mock_empty_history_low_score [] example_transaction) \<noteq> Inr False"
  by (simp add: volatility_execute_def Let_def mock_defs example_to py_min_def threshold_defs
        dict_get_def)

text \<open>
  C6: when no fetcher raised but the current or the predicted price is \<^verbatim>\<open>None\<close>, the
  evaluation returns false before the score reducer is called. The predictive and advanced
  variants test both prices (\<open>predictive_missing_price\<close>, \<open>advanced_missing_price\<close>). The
  volatility variant gathers the current price and does not test it: with the current
  price \<^verbatim>\<open>None\<close> its score reducer is called with \<^verbatim>\<open>None\<close>, and the executor is
  invoked.
\<close>

theorem volatility_scores_missing_price:
  "get_real_time_price mock_no_current_price ''MOCK_TOKEN'' = Inr None \<and>
   filter is_score_call (fst (volatility_execute mock_no_current_price [] example_transaction)) =
     [Call_calculate_volatility_score
        [Fin (19 / 2), round_double (49 / 5), round_double (101 / 10), round_double (99 / 10)]
        None
        [(''bullish_trend'', True), (''high_volatility'', True), (''low_liquidity'', False)]] \<and>
   front_run_calls (fst (volatility_execute mock_no_current_price [] example_transaction)) =
     [example_transaction] \<and>
   snd (volatility_execute mock_no_current_price [] example_transaction) = Inr True"
  by (simp add: volatility_execute_def Let_def mock_defs example_to py_min_def py_max_def
        threshold_defs dict_get_def)



text \<open>
  C10: the division by the current price in the predictive and advanced variants is
  unguarded. There is an input on which validation succeeds, every fetcher succeeds and
  the current price is zero (and not \<^verbatim>\<open>None\<close>), and on it \<^verbatim>\<open>execute\<close> of both variants
  raises \<^verbatim>\<open>ZeroDivisionError\<close>.
\<close>

theorem zero_current_price_raises:
  "\<exists>c cfg target_tx decoded_tx token_symbol to_address predicted market_conditions
      historical_prices volume.
     validate_transaction c target_tx ''front_run'' None = Inr (True, decoded_tx, token_symbol) \<and>
     map_of target_tx ''to'' = Some to_address \<and>
     predict_price_movement c token_symbol = Inr (Some predicted) \<and>
     get_real_time_price c token_symbol = Inr (Some (Fin 0)) \<and>
     check_market_conditions c to_address = Inr market_conditions \<and>
     get_token_price_data c token_symbol ''historical'' 1 = Inr historical_prices \<and>
     get_token_volume c token_symbol = Inr volume \<and>
     (\<forall>np. snd (predictive_execute np c cfg target_tx) = Inl ZeroDivisionError) \<and>
     snd (advanced_execute c cfg target_tx) = Inl ZeroDivisionError"
proof -
  let ?c = mock_zero_price
  let ?to = "PStr ''0x7a250d5630B4cF539739dF2C5dAcb4c659F2488D''"
  have v: "validate_transaction ?c example_transaction ''front_run'' None = Inr (True, [], ''MOCK_TOKEN'')"
    by (simp add: mock_defs)
  have t: "map_of example_transaction ''to'' = Some ?to"
    by (rule example_to)
  have p: "predict_price_movement ?c ''MOCK_TOKEN'' = Inr (Some (Fin (21 / 2)))"
    by (simp add: mock_defs)
  have r: "get_real_time_price ?c ''MOCK_TOKEN'' = Inr (Some (Fin 0))"
    by (simp add: mock_defs)
  have m: "check_market_conditions ?c ?to =
      Inr [(''bullish_trend'', True), (''high_volatility'', True), (''low_liquidity'', False)]"
    by (simp add: mock_defs)
  have h: "get_token_price_data ?c ''MOCK_TOKEN'' ''historical'' 1 =
      Inr [Fin (19 / 2), round_double (49 / 5), round_double (101 / 10), round_double (99 / 10)]"
    by (simp add: mock_defs)
  have vol: "get_token_volume ?c ''MOCK_TOKEN'' = Inr (Fin 1000000)"
    by (simp add: mock_defs)
  have "\<forall>np. snd (predictive_execute np ?c [] example_transaction) = Inl ZeroDivisionError"
    using predictive_zero_price [OF v t p r m h] by simp
  moreover have "snd (advanced_execute ?c [] example_transaction) = Inl ZeroDivisionError"
    using advanced_zero_price [OF v t p m r vol] by simp
  ultimately show ?thesis
    using v t p r m h vol by blast
qed

text \<open>
  C7, as stated: the predictive variant passes to its reducer the price change
  \<open>(predicted / current - 1) * 100\<close> and the volatility ratio, standard deviation over
  mean, which is 0 on an empty price history; with current = 10.0 and predicted = 10.5 the
  price change is 5.0. The last part fails on the code: the three operations are float
  operations, the quotient 1.05 is not a binary64 number, and the result is not 5.0.
\<close>

theorem price_change_is_not_five:
  "price_change_pct (Fin (21 / 2)) (Fin 10) \<noteq> Inr (Fin 5)"
  by (simp add: price_change_pct_example)

text \<open>
  C7, as the code has it: on a successful validation and gather with both prices present
  and a current price that divides, the one score call of the predictive variant receives
  the price change \<open>(predicted / current - 1) * 100\<close> evaluated in float arithmetic, each
  operation rounded, and the volatility ratio \<^verbatim>\<open>np.std / np.mean\<close> of the price history,
  which is 0 when the history is empty. With current = 10.0 and predicted = 10.5 the price
  change is \<open>5 + 5 / 2 ^ 50\<close>, which Python prints as 5.000000000000004.
\<close>

lemma exact_pct: "(5629499534213125 / 1125899906842624 :: real) = 5 + 5 / 2 ^ 50"
  by simp

theorem predictive_score_inputs:
  assumes "validate_transaction c target_tx ''front_run'' None = Inr (True, decoded_tx, token_symbol)"
      and "map_of target_tx ''to'' = Some to_address"
      and "predict_price_movement c token_symbol = Inr (Some predicted)"
      and "get_real_time_price c token_symbol = Inr (Some current)"
      and "check_market_conditions c to_address = Inr market_conditions"
      and "get_token_price_data c token_symbol ''historical'' 1 = Inr historical_prices"
      and "py_truediv predicted current = Inr ratio"
  shows "filter is_score_call (fst (predictive_execute np c cfg target_tx)) =
           [Call_calculate_opportunity_score
              (py_mul (py_sub ratio (Fin 1)) (Fin 100))
              (if historical_prices = [] then Fin 0
               else np_truediv np (np_std np historical_prices) (np_mean np historical_prices))
              market_conditions current historical_prices] \<and>
         price_change_pct (Fin (21 / 2)) (Fin 10) = Inr (Fin (5 + 5 / 2 ^ 50))"
proof -
  let ?pc = "py_mul (py_sub ratio (Fin 1)) (Fin 100)"
  let ?vol = "volatility_ratio np historical_prices"
  have pc: "price_change_pct predicted current = Inr ?pc"
    using assms(7) by (simp add: price_change_pct_def)
  have "filter is_score_call (fst (predictive_execute np c cfg target_tx)) =
      [Call_calculate_opportunity_score ?pc ?vol market_conditions current historical_prices]"
  proof (cases "calculate_opportunity_score c ?pc ?vol market_conditions current historical_prices")
    case (Inl e)
    with assms(1-6) pc show ?thesis
      by (simp add: predictive_execute_def Let_def)
  next
    case (Inr score)
    with assms(1-6) pc show ?thesis
      by (cases "py_ge score (opportunity_score_threshold cfg)")
         (simp_all add: predictive_execute_def Let_def)
  qed
  moreover have "?vol = (if historical_prices = [] then Fin 0
      else np_truediv np (np_std np historical_prices) (np_mean np historical_prices))"
    by (simp add: volatility_ratio_def)
  moreover have "price_change_pct (Fin (21 / 2)) (Fin 10) = Inr (Fin (5 + 5 / 2 ^ 50))"
    using price_change_pct_example by (simp only: exact_pct)
  ultimately show ?thesis by simp
qed

theorem predictive_score_inputs_witness:
  "validate_transaction mock_empty_history example_transaction ''front_run'' None =
     Inr (True, [], ''MOCK_TOKEN'') \<and>
   map_of example_transaction ''to'' = Some (PStr ''0x7a250d5630B4cF539739dF2C5dAcb4c659F2488D'') \<and>
   predict_price_movement mock_empty_history ''MOCK_TOKEN'' = Inr (Some (Fin (21 / 2))) \<and>
   get_real_time_price mock_empty_history ''MOCK_TOKEN'' = Inr (Some (Fin 10)) \<and>
   check_market_conditions mock_empty_history (PStr ''0x7a250d5630B4cF539739dF2C5dAcb4c659F2488D'') =
     Inr [(''bullish_trend'', True), (''high_volatility'', True), (''low_liquidity'', False)] \<and>
   get_token_price_data mock_empty_history ''MOCK_TOKEN'' ''historical'' 1 = Inr [] \<and>
   py_truediv (Fin (21 / 2)) (Fin 10) = Inr (Fin (4728779608739021 / 4503599627370496)) \<and>
   (\<forall>np. filter is_score_call (fst (predictive_execute np mock_empty_history [] example_transaction)) =
      [Call_calculate_opportunity_score (Fin (5629499534213125 / 1125899906842624)) (Fin 0)
         [(''bullish_trend'', True), (''high_volatility'', True), (''low_liquidity'', False)]
         (Fin 10) []])"
proof -
  have h1: "validate_transaction mock_empty_history example_transaction ''front_run'' None =
      Inr (True, [], ''MOCK_TOKEN'')"
    by (simp add: mock_defs)
  have h3: "predict_price_movement mock_empty_history ''MOCK_TOKEN'' = Inr (Some (Fin (21 / 2)))"
    by (simp add: mock_defs)
  have h4: "get_real_time_price mock_empty_history ''MOCK_TOKEN'' = Inr (Some (Fin 10))"
    by (simp add: mock_defs)
  have h5: "check_market_conditions mock_empty_history
      (PStr ''0x7a250d5630B4cF539739dF2C5dAcb4c659F2488D'') =
      Inr [(''bullish_trend'', True), (''high_volatility'', True), (''low_liquidity'', False)]"
    by (simp add: mock_defs)
  have h6: "get_token_price_data mock_empty_history ''MOCK_TOKEN'' ''historical'' 1 = Inr []"
    by (simp add: mock_defs)
  have h7: "py_truediv (Fin (21 / 2)) (Fin 10) = Inr (Fin (4728779608739021 / 4503599627370496))"
    by (simp add: round_double_21_20)
  have "filter is_score_call (fst (predictive_execute np mock_empty_history [] example_transaction)) =
      [Call_calculate_opportunity_score (Fin (5629499534213125 / 1125899906842624)) (Fin 0)
         [(''bullish_trend'', True), (''high_volatility'', True), (''low_liquidity'', False)]
         (Fin 10) []]" for np
    using predictive_score_inputs [OF h1 example_to h3 h4 h5 h6 h7, of np "[]"]
      round_double_excess round_double_pct
    by simp
  with h1 example_to h3 h4 h5 h6 h7 show ?thesis
    by simp
qed



end
